theory Spec2Isabelle
  imports Main
begin

section \<open>Python values, exceptions and keyword dictionaries\<close>

text \<open>
  The values that travel through \<^verbatim>\<open>redpanda/orm.py\<close>: cell values of a
  DataFrame, the values of the keyword options \<^verbatim>\<open>**read_sql\<close> and the bound
  parameters the dialect helper returns. \<open>VFloat m e\<close> is the finite float of value
  \<open>m * 2 ^ e\<close>; NaN and the infinities are not among the values.
\<close>

datatype val =
    VNone
  | VInt int
  | VFloat int int
  | VStr string
  | VList "val list"
  | VDict "(string \<times> val) list"

text \<open>
  An exception is a value. \<open>KeyError\<close> is what a missing dictionary key or a missing
  column label raises; \<open>Raised\<close> stands for any exception of a collaborator (the
  dialect helper, the engine, pandas, a transformation, the mapped class).
\<close>

datatype error =
    KeyError val
  | Raised string

type_synonym kwargs = "string \<rightharpoonup> val"

text \<open>\<^verbatim>\<open>d.get(k)\<close>: the value, or \<^verbatim>\<open>None\<close> when the key is absent.\<close>

definition dict_get :: "kwargs \<Rightarrow> string \<Rightarrow> val" where
  "dict_get d k = (case d k of None \<Rightarrow> VNone | Some v \<Rightarrow> v)"

text \<open>\<^verbatim>\<open>d[k]\<close>: the value, or \<^verbatim>\<open>KeyError\<close> when the key is absent.\<close>

definition dict_getitem :: "kwargs \<Rightarrow> string \<Rightarrow> error + val" where
  "dict_getitem d k = (case d k of None \<Rightarrow> Inl (KeyError (VStr k)) | Some v \<Rightarrow> Inr v)"

text \<open>
  Modelled from the spec: \<^verbatim>\<open>utils.dictcombine\<close> is called by
  \<^verbatim>\<open>RedPanda.frame\<close> but its module is not among the sources. The spec gives its
  contract: \<^verbatim>\<open>merge(base, override) -> mapping\<close>, right-biased on key collision
  (when both mappings define a key, the second mapping wins). It returns a new mapping
  and leaves its arguments alone.
\<close>

definition dictcombine :: "kwargs \<Rightarrow> kwargs \<Rightarrow> kwargs" where
  "dictcombine base override = base ++ override"

section \<open>The DataFrame\<close>

text \<open>
  A DataFrame is an ordered list of column labels, the dtype of each column, and an
  ordered list of rows; a row is its index label and its cell values, one per column.
  The dtypes are those of a result set of integers, floats and anything else
  (\<^verbatim>\<open>object\<close>: strings, \<^verbatim>\<open>None\<close>, mixed cells); unsigned, boolean and
  datetime columns are not among them.
\<close>

datatype dtype = Int64 | Float64 | Object

record table =
  columns :: "string list"
  dtypes :: "dtype list"
  rows :: "(val \<times> val list) list"


text \<open>
  Every DataFrame is rectangular: one dtype per column and one cell per column in every
  row.
\<close>

definition rectangular :: "table \<Rightarrow> bool" where
  "rectangular t \<longleftrightarrow>
     length (dtypes t) = length (columns t)
     \<and> list_all (\<lambda>r. length (snd r) = length (columns t)) (rows t)"


text \<open>The cell of a row under a column label (the first column of that label).\<close>

definition cell :: "string list \<Rightarrow> val list \<Rightarrow> string \<Rightarrow> val option" where
  "cell cs r c = map_of (zip cs r) c"

text \<open>
  \<^verbatim>\<open>dataframe[labels]\<close> with a list of column labels. pandas raises
  \<^verbatim>\<open>KeyError\<close> naming the labels that are no column of the frame, each of them
  once, in the order they are first requested; otherwise the result has, for each
  requested label in turn, every column of that label, and the rows and their index
  labels in the same order.
\<close>

definition first_occurrences :: "'a list \<Rightarrow> 'a list" where
  "first_occurrences xs = rev (remdups (rev xs))"

definition positions :: "string list \<Rightarrow> string \<Rightarrow> nat list" where
  "positions cs c = filter (\<lambda>i. cs ! i = c) [0..<length cs]"

definition take_columns :: "table \<Rightarrow> string list \<Rightarrow> error + table" where
  "take_columns t labels =
     (let missing = first_occurrences (filter (\<lambda>c. c \<notin> set (columns t)) labels) in
      if missing \<noteq> [] then Inl (KeyError (VList (map VStr missing)))
      else
        let ps = concat (map (positions (columns t)) labels) in
        Inr \<lparr> columns = map (\<lambda>i. columns t ! i) ps,
              dtypes = map (\<lambda>i. dtypes t ! i) ps,
              rows = map (\<lambda>r. (fst r, map (\<lambda>i. snd r ! i) ps)) (rows t) \<rparr>)"

text \<open>
  The key of \<^verbatim>\<open>dataframe[key]\<close> read as a list of column labels, when it is one.
\<close>

fun label_of :: "val \<Rightarrow> string option" where
  "label_of (VStr s) = Some s"
| "label_of _ = None"

fun labels_of :: "val \<Rightarrow> string list option" where
  "labels_of (VList vs) =
     (if list_all (\<lambda>v. label_of v \<noteq> None) vs then Some (map (\<lambda>v. the (label_of v)) vs)
      else None)"
| "labels_of _ = None"

section \<open>The collaborators\<close>

text \<open>
  \<^verbatim>\<open>dialects.statement_and_params\<close> and \<^verbatim>\<open>pandas.read_sql\<close> talk to the
  database: each takes the state of the outside world \<open>'w\<close> and returns its result, or
  the exception it raised, with the world after the call. They are parameters of the
  model, as are \<^verbatim>\<open>str\<close> on the statement object and \<^verbatim>\<open>dataframe[key]\<close> for a
  key that is not a list of column names.
\<close>

record ('e, 'q, 's, 'w) env =
  statement_and_params :: "'e \<Rightarrow> 'q \<Rightarrow> 'w \<Rightarrow> (error + 's \<times> val) \<times> 'w"
  sql_str :: "'s \<Rightarrow> string"
  pandas_read_sql :: "string \<Rightarrow> 'e \<Rightarrow> kwargs \<Rightarrow> 'w \<Rightarrow> (error + table) \<times> 'w"
  getitem_other :: "table \<Rightarrow> val \<Rightarrow> error + table"

definition getitem :: "('e, 'q, 's, 'w) env \<Rightarrow> table \<Rightarrow> val \<Rightarrow> error + table" where
  "getitem env t key =
     (case labels_of key of
        Some labels \<Rightarrow> take_columns t labels
      | None \<Rightarrow> getitem_other env t key)"

text \<open>The calls made to the database collaborators, in the order they are made.\<close>

datatype ('e, 'q) call =
    Resolve 'e 'q
  | ReadSql string 'e kwargs

section \<open>The adapter\<close>

text \<open>
  \<^verbatim>\<open>class RedPanda\<close>: the four attributes \<^verbatim>\<open>__init__\<close> stores. The mapped class
  is its constructor, called with keyword arguments.
\<close>

record ('o, 'e, 'q) redpanda =
  ormcls :: "kwargs \<Rightarrow> error + 'o"
  engine :: "'e"
  query :: "'q"
  read_sql :: "kwargs"

definition init ::
  "(kwargs \<Rightarrow> error + 'o) \<Rightarrow> 'e \<Rightarrow> 'q \<Rightarrow> kwargs \<Rightarrow> ('o, 'e, 'q) redpanda" where
  "init c e q opts = \<lparr> ormcls = c, engine = e, query = q, read_sql = opts \<rparr>"

text \<open>
  The state a call of \<^verbatim>\<open>frame\<close> runs in: the adapter object \<^verbatim>\<open>self\<close>, the
  outside world, and the log of calls to the database collaborators.
\<close>

record ('o, 'e, 'q, 'w) state =
  self :: "('o, 'e, 'q) redpanda"
  world :: "'w"
  calls :: "('e, 'q) call list"

definition call_statement_and_params ::
  "('e, 'q, 's, 'w) env \<Rightarrow> 'e \<Rightarrow> 'q \<Rightarrow> ('o, 'e, 'q, 'w) state
     \<Rightarrow> (error + 's \<times> val) \<times> ('o, 'e, 'q, 'w) state" where
  "call_statement_and_params env e q s =
     (case statement_and_params env e q (world s) of
        (r, w) \<Rightarrow> (r, s\<lparr> world := w, calls := calls s @ [Resolve e q] \<rparr>))"

definition call_read_sql ::
  "('e, 'q, 's, 'w) env \<Rightarrow> string \<Rightarrow> 'e \<Rightarrow> kwargs \<Rightarrow> ('o, 'e, 'q, 'w) state
     \<Rightarrow> (error + table) \<times> ('o, 'e, 'q, 'w) state" where
  "call_read_sql env sql e opts s =
     (case pandas_read_sql env sql e opts (world s) of
        (r, w) \<Rightarrow> (r, s\<lparr> world := w, calls := calls s @ [ReadSql sql e opts] \<rparr>))"

text \<open>
  \<^verbatim>\<open>reduce((lambda x, y: y(x)), transformations, dataframe)\<close>, with the builtin
  \<^verbatim>\<open>reduce\<close> of Python 2: the transformations are applied from the left, each to the
  result of the one before; the first exception ends the fold.
\<close>

fun reduce_calls :: "(table \<Rightarrow> error + table) list \<Rightarrow> table \<Rightarrow> error + table" where
  "reduce_calls [] x = Inr x"
| "reduce_calls (y # ys) x = (case y x of Inl e \<Rightarrow> Inl e | Inr x' \<Rightarrow> reduce_calls ys x')"

text \<open>
  Lines 38 to 40 of \<^verbatim>\<open>frame\<close>:
  \<^verbatim>\<open>if self.read_sql.get('columns') is not None: dataframe = dataframe[self.read_sql['columns']]\<close>
\<close>

definition mask_columns ::
  "('e, 'q, 's, 'w) env \<Rightarrow> ('o, 'e, 'q) redpanda \<Rightarrow> table \<Rightarrow> error + table" where
  "mask_columns env a dataframe =
     (if dict_get (read_sql a) ''columns'' \<noteq> VNone then
        (case dict_getitem (read_sql a) ''columns'' of
           Inl e \<Rightarrow> Inl e
         | Inr key \<Rightarrow> getitem env dataframe key)
      else Inr dataframe)"

text \<open>\<^verbatim>\<open>RedPanda.frame(self, *transformations)\<close>.\<close>

definition frame ::
  "('e, 'q, 's, 'w) env \<Rightarrow> (table \<Rightarrow> error + table) list \<Rightarrow> ('o, 'e, 'q, 'w) state
     \<Rightarrow> (error + table) \<times> ('o, 'e, 'q, 'w) state" where
  "frame env transformations s =
     (case call_statement_and_params env (engine (self s)) (query (self s)) s of
        (Inl e, s1) \<Rightarrow> (Inl e, s1)
      | (Inr (sql, params), s1) \<Rightarrow>
          (let read_sql' = dictcombine (read_sql (self s1)) [''params'' \<mapsto> params] in
           case call_read_sql env (sql_str env sql) (engine (self s1)) read_sql' s1 of
             (Inl e, s2) \<Rightarrow> (Inl e, s2)
           | (Inr dataframe, s2) \<Rightarrow>
               (case mask_columns env (self s2) dataframe of
                  Inl e \<Rightarrow> (Inl e, s2)
                | Inr dataframe' \<Rightarrow> (reduce_calls transformations dataframe', s2))))"

section \<open>Rows back to mapped objects\<close>

text \<open>
  \<^verbatim>\<open>dataframe.iterrows()\<close> reads the rows from \<^verbatim>\<open>dataframe.values\<close>, one array
  of a single dtype for the whole frame: \<^verbatim>\<open>object\<close> when a column is, else
  \<^verbatim>\<open>float64\<close> when a column is, else \<^verbatim>\<open>int64\<close>. In a \<^verbatim>\<open>float64\<close> array the
  cells of the integer columns are cast to floats.
\<close>

definition common_dtype :: "dtype list \<Rightarrow> dtype" where
  "common_dtype ds =
     (if Object \<in> set ds then Object else if Float64 \<in> set ds then Float64 else Int64)"

text \<open>
  The cast of a 64-bit integer to a float of 53 bits of mantissa: the \<open>k\<close> low bits
  that do not fit are dropped and the rest rounded to nearest, ties to even.
\<close>

function bits_over :: "nat \<Rightarrow> nat" where
  "bits_over a = (if a < 2 ^ 53 then 0 else Suc (bits_over (a div 2)))"
  by pat_completeness auto
termination
  by (relation "measure (\<lambda>a. a)") auto

declare bits_over.simps [simp del]

definition float64_of_int :: "int \<Rightarrow> val" where
  "float64_of_int i =
     (let a = nat \<bar>i\<bar>;
          k = bits_over a;
          q = a div 2 ^ k;
          r = a mod 2 ^ k;
          q' = (if 2 ^ k < 2 * r \<or> (2 * r = 2 ^ k \<and> odd q) then q + 1 else q)
      in VFloat (sgn i * int q') (int k))"

fun as_dtype :: "dtype \<Rightarrow> val \<Rightarrow> val" where
  "as_dtype Float64 (VInt i) = float64_of_int i"
| "as_dtype _ v = v"

definition row_values :: "table \<Rightarrow> val list \<Rightarrow> val list" where
  "row_values t cells = map (as_dtype (common_dtype (dtypes t))) cells"


text \<open>
  \<^verbatim>\<open>dataframe.iterrows()\<close>: for each row in order, its index label and the row as a
  series of labelled cells, taken from \<^verbatim>\<open>dataframe.values\<close>.
  \<^verbatim>\<open>row.to_dict()\<close>: the cells as a dictionary; where a label repeats, the later
  cell is the one kept.
\<close>

definition iterrows :: "table \<Rightarrow> (val \<times> (string \<times> val) list) list" where
  "iterrows t = map (\<lambda>r. (fst r, zip (columns t) (row_values t (snd r)))) (rows t)"

definition to_dict :: "(string \<times> val) list \<Rightarrow> kwargs" where
  "to_dict row = map_of (rev row)"

text \<open>
  \<^verbatim>\<open>RedPanda.parse\<close> is a generator function. Calling it runs nothing: it makes a
  generator that holds \<^verbatim>\<open>self\<close> and the rows still to visit. Each \<^verbatim>\<open>next\<close> runs
  the loop body once: it takes the next row, drops the index label \<^verbatim>\<open>ix\<close> and
  calls the mapped class with the row's dictionary as keyword arguments. When the rows
  are used up \<^verbatim>\<open>next\<close> raises \<^verbatim>\<open>StopIteration\<close>; when the mapped class raises,
  the exception leaves the generator, which is finished from then on.
\<close>

datatype 'o step = Yield 'o | Raise error | StopIteration

record ('o, 'e, 'q) generator =
  g_self :: "('o, 'e, 'q) redpanda"
  pending :: "(val \<times> (string \<times> val) list) list"

definition parse :: "('o, 'e, 'q) redpanda \<Rightarrow> table \<Rightarrow> ('o, 'e, 'q) generator" where
  "parse a dataframe = \<lparr> g_self = a, pending = iterrows dataframe \<rparr>"

definition gen_next ::
  "('o, 'e, 'q) generator \<Rightarrow> 'o step \<times> ('o, 'e, 'q) generator" where
  "gen_next g =
     (case pending g of
        [] \<Rightarrow> (StopIteration, g)
      | ixrow # rest \<Rightarrow>
          (case ormcls (g_self g) (to_dict (snd ixrow)) of
             Inl e \<Rightarrow> (Raise e, g\<lparr> pending := [] \<rparr>)
           | Inr obj \<Rightarrow> (Yield obj, g\<lparr> pending := rest \<rparr>)))"

text \<open>The results of \<open>n\<close> successive calls of \<^verbatim>\<open>next\<close>, and the generator after them.\<close>

fun nexts ::
  "nat \<Rightarrow> ('o, 'e, 'q) generator \<Rightarrow> 'o step list \<times> ('o, 'e, 'q) generator" where
  "nexts 0 g = ([], g)"
| "nexts (Suc n) g =
     (case gen_next g of (r, g') \<Rightarrow> (case nexts n g' of (rs, g'') \<Rightarrow> (r # rs, g'')))"

section \<open>A concrete environment\<close>

text \<open>
  A small database for evaluating the model: the world is the number of queries run so
  far, the dialect helper returns the query text with the bound parameters
  \<^verbatim>\<open>{'p': 2}\<close>, and the loader returns a two-row table whose first column shows
  which execution produced it.
\<close>

definition ex_table :: "nat \<Rightarrow> table" where
  "ex_table n =
     \<lparr> columns = [''a'', ''b'', ''c''],
       dtypes = [Int64, Object, Int64],
       rows = [(VInt 0, [VInt (int n), VStr ''x'', VInt 10]),
               (VInt 1, [VInt (int n), VStr ''y'', VInt 20])] \<rparr>"

definition ex_env :: "(unit, string, string, nat) env" where
  "ex_env =
     \<lparr> statement_and_params = (\<lambda>e q w. (Inr (q, VDict [(''p'', VInt 2)]), w)),
       sql_str = (\<lambda>sql. sql),
       pandas_read_sql = (\<lambda>sql e opts w. (Inr (ex_table w), Suc w)),
       getitem_other = (\<lambda>t key. Inl (Raised ''not a list of labels'')) \<rparr>"

text \<open>A mapped class with the fields \<^verbatim>\<open>id\<close> (an integer) and \<^verbatim>\<open>name\<close> (a string).\<close>

definition ex_ormcls :: "kwargs \<Rightarrow> error + int \<times> string" where
  "ex_ormcls kw =
     (case (kw ''id'', kw ''name'') of
        (Some (VInt i), Some (VStr n)) \<Rightarrow> Inr (i, n)
      | _ \<Rightarrow> Inl (Raised ''TypeError''))"

definition ex_adapter :: "kwargs \<Rightarrow> (int \<times> string, unit, string) redpanda" where
  "ex_adapter opts = init ex_ormcls () ''SELECT a, b, c FROM t WHERE a > :p'' opts"

definition ex_state :: "kwargs \<Rightarrow> (int \<times> string, unit, string, nat) state" where
  "ex_state opts = \<lparr> self = ex_adapter opts, world = 0, calls = [] \<rparr>"


definition ex_malformed :: table where
  "ex_malformed =
     \<lparr> columns = [''id'', ''name''],
       dtypes = [Int64, Object],
       rows = [(VInt 0, [VInt 1, VStr ''x'']),
               (VInt 1, [VInt 2, VNone]),
               (VInt 2, [VInt 3, VStr ''z''])] \<rparr>"

text \<open>Two transformations: drop the last row; rename column \<^verbatim>\<open>b\<close>.\<close>

definition ex_drop_last_row :: "table \<Rightarrow> error + table" where
  "ex_drop_last_row t = Inr (t\<lparr> rows := butlast (rows t) \<rparr>)"

definition ex_rename_b :: "table \<Rightarrow> error + table" where
  "ex_rename_b t =
     Inr (t\<lparr> columns := map (\<lambda>c. if c = ''b'' then ''B'' else c) (columns t) \<rparr>)"

text \<open>
  Collaborators that fail: no dialect for the engine; no connection; a transformation
  that raises.
\<close>

definition ex_env_no_dialect :: "(unit, string, string, nat) env" where
  "ex_env_no_dialect =
     ex_env\<lparr> statement_and_params := (\<lambda>e q w. (Inl (Raised ''unsupported dialect''), w)) \<rparr>"

definition ex_env_down :: "(unit, string, string, nat) env" where
  "ex_env_down =
     ex_env\<lparr> pandas_read_sql := (\<lambda>sql e opts w. (Inl (Raised ''connection refused''), w)) \<rparr>"

definition ex_fail :: "table \<Rightarrow> error + table" where
  "ex_fail t = Inl (Raised ''transformation failed'')"

text \<open>
  A loader that shows the options it was called with: its table has one row, with the
  \<^verbatim>\<open>params\<close> and the \<^verbatim>\<open>index_col\<close> it received.
\<close>

definition ex_env_echo :: "(unit, string, string, nat) env" where
  "ex_env_echo =
     ex_env\<lparr> pandas_read_sql := (\<lambda>sql e opts w.
       (Inr \<lparr> columns = [''params'', ''index_col''],
              dtypes = [Object, Object],
              rows = [(VInt 0, [dict_get opts ''params'', dict_get opts ''index_col''])] \<rparr>,
        Suc w)) \<rparr>"

text \<open>
  A loader whose result set has two columns of the same name, as a join gives.
\<close>

definition ex_env_join :: "(unit, string, string, nat) env" where
  "ex_env_join =
     ex_env\<lparr> pandas_read_sql := (\<lambda>sql e opts w.
       (Inr \<lparr> columns = [''a'', ''b'', ''a''],
              dtypes = [Int64, Object, Int64],
              rows = [(VInt 0, [VInt 1, VStr ''x'', VInt 7])] \<rparr>,
        Suc w)) \<rparr>"



section \<open>The three ways a call of \<open>frame\<close> can go\<close>

lemma frame_resolver_error:
  assumes "statement_and_params env (engine (self s)) (query (self s)) (world s) = (Inl e, w1)"
  shows "frame env ts s =
    (Inl e, s\<lparr> world := w1, calls := calls s @ [Resolve (engine (self s)) (query (self s))] \<rparr>)"
  using assms by (simp add: frame_def call_statement_and_params_def)

lemma frame_loader_error:
  assumes "statement_and_params env (engine (self s)) (query (self s)) (world s)
             = (Inr (sql, params), w1)"
    and "pandas_read_sql env (sql_str env sql) (engine (self s))
           (dictcombine (read_sql (self s)) [''params'' \<mapsto> params]) w1 = (Inl e, w2)"
  shows "frame env ts s =
    (Inl e, s\<lparr> world := w2, calls := calls s @
       [Resolve (engine (self s)) (query (self s)),
        ReadSql (sql_str env sql) (engine (self s))
          (dictcombine (read_sql (self s)) [''params'' \<mapsto> params])] \<rparr>)"
  using assms by (simp add: frame_def call_statement_and_params_def call_read_sql_def)

lemma frame_loaded:
  assumes "statement_and_params env (engine (self s)) (query (self s)) (world s)
             = (Inr (sql, params), w1)"
    and "pandas_read_sql env (sql_str env sql) (engine (self s))
           (dictcombine (read_sql (self s)) [''params'' \<mapsto> params]) w1 = (Inr t, w2)"
  shows "frame env ts s =
    ((case mask_columns env (self s) t of Inl e \<Rightarrow> Inl e | Inr t' \<Rightarrow> reduce_calls ts t'),
     s\<lparr> world := w2, calls := calls s @
       [Resolve (engine (self s)) (query (self s)),
        ReadSql (sql_str env sql) (engine (self s))
          (dictcombine (read_sql (self s)) [''params'' \<mapsto> params])] \<rparr>)"
  using assms
  by (simp add: frame_def call_statement_and_params_def call_read_sql_def split: sum.splits)

lemma frame_cases:
  obtains (resolver_error) e w1 where
      "statement_and_params env (engine (self s)) (query (self s)) (world s) = (Inl e, w1)"
  | (loader_error) sql params w1 e w2 where
      "statement_and_params env (engine (self s)) (query (self s)) (world s)
         = (Inr (sql, params), w1)"
      "pandas_read_sql env (sql_str env sql) (engine (self s))
           (dictcombine (read_sql (self s)) [''params'' \<mapsto> params]) w1 = (Inl e, w2)"
  | (loaded) sql params w1 t w2 where
      "statement_and_params env (engine (self s)) (query (self s)) (world s)
         = (Inr (sql, params), w1)"
      "pandas_read_sql env (sql_str env sql) (engine (self s))
           (dictcombine (read_sql (self s)) [''params'' \<mapsto> params]) w1 = (Inr t, w2)"
proof (cases "statement_and_params env (engine (self s)) (query (self s)) (world s)")
  case (Pair r w1)
  show ?thesis
  proof (cases r)
    case (Inl e)
    with Pair resolver_error show ?thesis by simp
  next
    case (Inr sp)
    obtain sql params where sp: "sp = (sql, params)" by (cases sp)
    show ?thesis
    proof (cases "pandas_read_sql env (sql_str env sql) (engine (self s))
           (dictcombine (read_sql (self s)) [''params'' \<mapsto> params]) w1")
      case (Pair r2 w2)
      with \<open>statement_and_params env (engine (self s)) (query (self s)) (world s) = (r, w1)\<close>
        Inr sp loader_error loaded show ?thesis
        by (cases r2) simp_all
    qed
  qed
qed

lemma self_frame: "self (snd (frame env ts s)) = self s"
  by (cases rule: frame_cases [of env s])
     (simp_all add: frame_resolver_error frame_loader_error frame_loaded)

lemma reduce_calls_append:
  "reduce_calls (ts @ us) x =
     (case reduce_calls ts x of Inl e \<Rightarrow> Inl e | Inr y \<Rightarrow> reduce_calls us y)"
  by (induction ts arbitrary: x) (auto split: sum.splits)

lemma frame_append:
  "frame env (ts @ us) s =
     (case frame env ts s of
        (Inl e, s') \<Rightarrow> (Inl e, s')
      | (Inr d, s') \<Rightarrow> (reduce_calls us d, s'))"
  by (cases rule: frame_cases [of env s])
     (simp_all add: frame_resolver_error frame_loader_error frame_loaded reduce_calls_append
        split: sum.splits)

lemma ex_resolver:
  "statement_and_params ex_env (engine (self (ex_state opts))) (query (self (ex_state opts)))
     (world (ex_state opts))
   = (Inr (''SELECT a, b, c FROM t WHERE a > :p'', VDict [(''p'', VInt 2)]), 0)"
  by (simp add: ex_env_def ex_state_def ex_adapter_def init_def)

section \<open>The concrete environment, evaluated\<close>

lemma ex_resolver_at:
  "statement_and_params ex_env (engine (self (ex_state opts))) (query (self (ex_state opts))) w
   = (Inr (''SELECT a, b, c FROM t WHERE a > :p'', VDict [(''p'', VInt 2)]), w)"
  by (simp add: ex_env_def ex_state_def ex_adapter_def init_def)

lemma ex_loader:
  "pandas_read_sql ex_env sql e opts w = (Inr (ex_table w), Suc w)"
  by (simp add: ex_env_def)

lemma ex_frame:
  "frame ex_env ts (ex_state opts) =
     ((case mask_columns ex_env (ex_adapter opts) (ex_table 0) of
         Inl e \<Rightarrow> Inl e | Inr t' \<Rightarrow> reduce_calls ts t'),
      (ex_state opts)\<lparr> world := Suc 0, calls :=
         [Resolve () ''SELECT a, b, c FROM t WHERE a > :p'',
          ReadSql ''SELECT a, b, c FROM t WHERE a > :p'' ()
            (dictcombine opts [''params'' \<mapsto> VDict [(''p'', VInt 2)]])] \<rparr>)"
  using frame_loaded [where env = ex_env and s = "ex_state opts" and ts = ts,
      OF ex_resolver ex_loader]
  by (simp add: ex_env_def ex_state_def ex_adapter_def init_def)

lemma ex_mask_none: "mask_columns env (ex_adapter Map.empty) t = Inr t"
  by (simp add: mask_columns_def dict_get_def ex_adapter_def init_def)

section \<open>The chain of transformations\<close>

text \<open>
  Claim C3. From the same adapter and the same state of the world, \<open>frame(t1, t2)\<close>
  returns what \<open>frame()\<close> returns with \<open>t1\<close> and then \<open>t2\<close> applied to it: first
  \<open>t1\<close> on the loaded (and possibly column-masked) table, then \<open>t2\<close> on the result
  of \<open>t1\<close>. Both calls leave the world and the call log in the same state. An
  exception of \<open>frame()\<close>, of \<open>t1\<close> or of \<open>t2\<close> is the result on both sides.
\<close>

theorem C3_frame_transformations_compose:
  "frame env [t1, t2] s =
     (case frame env [] s of
        (Inl e, s') \<Rightarrow> (Inl e, s')
      | (Inr result, s') \<Rightarrow>
          ((case t1 result of Inl e \<Rightarrow> Inl e | Inr x \<Rightarrow> t2 x), s'))"
  using frame_append [of env "[]" "[t1, t2]" s]
  by (simp split: prod.splits sum.splits)

theorem C3_frame_transformations_compose_witness:
  "fst (frame ex_env [ex_drop_last_row, ex_rename_b] (ex_state Map.empty)) =
     Inr \<lparr> columns = [''a'', ''B'', ''c''], dtypes = [Int64, Object, Int64],
           rows = [(VInt 0, [VInt 0, VStr ''x'', VInt 10])] \<rparr>
   \<and> fst (frame ex_env [] (ex_state Map.empty)) = Inr (ex_table 0)"
  using C3_frame_transformations_compose
    [of ex_env ex_drop_last_row ex_rename_b "ex_state Map.empty"]
  by (simp add: ex_frame mask_columns_def dict_get_def ex_adapter_def init_def ex_table_def
       ex_drop_last_row_def ex_rename_b_def)

section \<open>The adapter is never written\<close>

lemma g_self_gen_next: "g_self (snd (gen_next g)) = g_self g"
  by (simp add: gen_next_def split: list.splits sum.splits)

lemma g_self_nexts: "g_self (snd (nexts n g)) = g_self g"
proof (induction n arbitrary: g)
  case 0
  show ?case by simp
next
  case (Suc n)
  obtain r g' where g': "gen_next g = (r, g')" by (cases "gen_next g")
  with g_self_gen_next [of g] have "g_self g' = g_self g" by simp
  with Suc [of g'] g' show ?case by (cases "nexts n g'") simp
qed

text \<open>
  Claim C5. The adapter object after a call of \<open>frame\<close> is the adapter object before
  it (mapped class, engine, query and options), whatever the collaborators return, so
  also after two calls in a row; the generator \<open>parse\<close> makes holds the adapter it was
  called on, and no number of \<open>next\<close> calls changes it.
\<close>

theorem C5_adapter_unchanged:
  "self (snd (frame env ts s)) = self s
   \<and> self (snd (frame env ts' (snd (frame env ts s)))) = self s
   \<and> g_self (snd (gen_next g)) = g_self g
   \<and> g_self (snd (nexts n (parse a t))) = a"
  by (simp add: self_frame g_self_gen_next g_self_nexts parse_def)

section \<open>Every call runs the query\<close>

lemma frame_resolved:
  assumes "statement_and_params env (engine (self s)) (query (self s)) (world s)
             = (Inr (sql, params), w1)"
    and "pandas_read_sql env (sql_str env sql) (engine (self s))
           (dictcombine (read_sql (self s)) [''params'' \<mapsto> params]) w1 = (res, w2)"
  shows "frame env ts s =
    ((case res of
        Inl e \<Rightarrow> Inl e
      | Inr t \<Rightarrow> (case mask_columns env (self s) t of
                   Inl e \<Rightarrow> Inl e | Inr t' \<Rightarrow> reduce_calls ts t')),
     s\<lparr> world := w2, calls := calls s @
       [Resolve (engine (self s)) (query (self s)),
        ReadSql (sql_str env sql) (engine (self s))
          (dictcombine (read_sql (self s)) [''params'' \<mapsto> params])] \<rparr>)"
  using assms by (cases res) (simp_all add: frame_loader_error frame_loaded)

text \<open>
  Claim C8. A call of \<open>frame\<close> in which the dialect helper returns a statement adds
  exactly two entries to the call log: one call of the helper and one call of the
  loader. A second call on the same adapter adds the same two again, in the world the
  first call left, and its result is computed from what the loader returns that second
  time: nothing of the first call is kept.
\<close>

theorem C8_frame_no_caching:
  assumes r1: "statement_and_params env (engine (self s)) (query (self s)) (world s)
             = (Inr (sql, params), w1)"
    and l1: "pandas_read_sql env (sql_str env sql) (engine (self s))
           (dictcombine (read_sql (self s)) [''params'' \<mapsto> params]) w1 = (res, w2)"
    and r2: "statement_and_params env (engine (self s)) (query (self s)) w2
             = (Inr (sql', params'), w3)"
    and l2: "pandas_read_sql env (sql_str env sql') (engine (self s))
           (dictcombine (read_sql (self s)) [''params'' \<mapsto> params']) w3 = (res', w4)"
  shows "calls (snd (frame env ts s)) =
           calls s @
           [Resolve (engine (self s)) (query (self s)),
            ReadSql (sql_str env sql) (engine (self s))
              (dictcombine (read_sql (self s)) [''params'' \<mapsto> params])]
       \<and> calls (snd (frame env ts (snd (frame env ts s)))) =
           calls s @
           [Resolve (engine (self s)) (query (self s)),
            ReadSql (sql_str env sql) (engine (self s))
              (dictcombine (read_sql (self s)) [''params'' \<mapsto> params]),
            Resolve (engine (self s)) (query (self s)),
            ReadSql (sql_str env sql') (engine (self s))
              (dictcombine (read_sql (self s)) [''params'' \<mapsto> params'])]
       \<and> world (snd (frame env ts (snd (frame env ts s)))) = w4
       \<and> fst (frame env ts (snd (frame env ts s))) =
           (case res' of
              Inl e \<Rightarrow> Inl e
            | Inr t \<Rightarrow> (case mask_columns env (self s) t of
                         Inl e \<Rightarrow> Inl e | Inr t' \<Rightarrow> reduce_calls ts t'))"
proof -
  let ?s1 = "snd (frame env ts s)"
  have s1: "?s1 = s\<lparr> world := w2, calls := calls s @
       [Resolve (engine (self s)) (query (self s)),
        ReadSql (sql_str env sql) (engine (self s))
          (dictcombine (read_sql (self s)) [''params'' \<mapsto> params])] \<rparr>"
    by (simp add: frame_resolved [OF r1 l1])
  have r2': "statement_and_params env (engine (self ?s1)) (query (self ?s1)) (world ?s1)
             = (Inr (sql', params'), w3)"
    using r2 by (simp add: s1)
  have l2': "pandas_read_sql env (sql_str env sql') (engine (self ?s1))
           (dictcombine (read_sql (self ?s1)) [''params'' \<mapsto> params']) w3 = (res', w4)"
    using l2 by (simp add: s1)
  have sf: "self ?s1 = self s"
    by (rule self_frame)
  have "frame env ts ?s1 =
    ((case res' of
        Inl e \<Rightarrow> Inl e
      | Inr t \<Rightarrow> (case mask_columns env (self s) t of
                   Inl e \<Rightarrow> Inl e | Inr t' \<Rightarrow> reduce_calls ts t')),
     ?s1\<lparr> world := w4, calls := calls ?s1 @
       [Resolve (engine (self s)) (query (self s)),
        ReadSql (sql_str env sql') (engine (self s))
          (dictcombine (read_sql (self s)) [''params'' \<mapsto> params'])] \<rparr>)"
    by (rule frame_resolved [OF r2' l2', unfolded sf])
  then show ?thesis by (simp add: s1)
qed

text \<open>
  In the concrete environment the loader's table shows which execution made it: the
  first call returns the table of execution 0, the second that of execution 1.
\<close>

theorem C8_frame_no_caching_witness:
  "length (calls (snd (frame ex_env [] (snd (frame ex_env [] (ex_state Map.empty)))))) = 4
   \<and> world (snd (frame ex_env [] (snd (frame ex_env [] (ex_state Map.empty))))) = 2
   \<and> fst (frame ex_env [] (ex_state Map.empty)) = Inr (ex_table 0)
   \<and> fst (frame ex_env [] (snd (frame ex_env [] (ex_state Map.empty)))) = Inr (ex_table 1)
   \<and> ex_table 0 \<noteq> ex_table 1"
  using C8_frame_no_caching [where env = ex_env and s = "ex_state Map.empty" and ts = "[]",
      OF ex_resolver ex_loader ex_resolver_at ex_loader]
    frame_loaded [where env = ex_env and s = "ex_state Map.empty" and ts = "[]",
      OF ex_resolver ex_loader]
  by (simp add: ex_mask_none ex_state_def ex_table_def)

section \<open>The column mask and the propagation of exceptions\<close>

lemma mask_columns_skip:
  "read_sql a ''columns'' = None \<or> read_sql a ''columns'' = Some VNone
     \<Longrightarrow> mask_columns env a t = Inr t"
  by (auto simp add: mask_columns_def dict_get_def)

lemma mask_columns_key:
  "read_sql a ''columns'' = Some key \<Longrightarrow> key \<noteq> VNone
     \<Longrightarrow> mask_columns env a t = getitem env t key"
  by (simp add: mask_columns_def dict_get_def dict_getitem_def)

text \<open>
  Claim C9. Given that the loader returned the table \<open>t\<close>: when the stored options
  have no \<open>columns\<close> key, or have it with the value \<open>None\<close>, \<open>frame\<close> applies the
  transformations to \<open>t\<close> itself, all columns kept; when they have it with any other
  value, \<open>frame\<close> applies the transformations to \<open>t[key]\<close>. The test reads the stored
  options; the options merged for the loader have the same \<open>columns\<close> entry, since
  only \<open>params\<close> is injected.
\<close>

theorem C9_mask_skipped_iff_none:
  assumes r: "statement_and_params env (engine (self s)) (query (self s)) (world s)
             = (Inr (sql, params), w1)"
    and l: "pandas_read_sql env (sql_str env sql) (engine (self s))
           (dictcombine (read_sql (self s)) [''params'' \<mapsto> params]) w1 = (Inr t, w2)"
  shows "(read_sql (self s) ''columns'' = None \<or> read_sql (self s) ''columns'' = Some VNone
            \<longrightarrow> fst (frame env ts s) = reduce_calls ts t)
       \<and> (\<forall>key. read_sql (self s) ''columns'' = Some key \<and> key \<noteq> VNone
            \<longrightarrow> fst (frame env ts s) =
                  (case getitem env t key of Inl e \<Rightarrow> Inl e | Inr t' \<Rightarrow> reduce_calls ts t'))
       \<and> dictcombine (read_sql (self s)) [''params'' \<mapsto> params] ''columns''
            = read_sql (self s) ''columns''"
proof (intro conjI impI allI)
  assume "read_sql (self s) ''columns'' = None \<or> read_sql (self s) ''columns'' = Some VNone"
  then have "mask_columns env (self s) t = Inr t"
    by (rule mask_columns_skip)
  then show "fst (frame env ts s) = reduce_calls ts t"
    by (simp add: frame_loaded [OF r l])
next
  fix key
  assume "read_sql (self s) ''columns'' = Some key \<and> key \<noteq> VNone"
  then have "mask_columns env (self s) t = getitem env t key"
    by (simp add: mask_columns_key)
  then show "fst (frame env ts s) =
         (case getitem env t key of Inl e \<Rightarrow> Inl e | Inr t' \<Rightarrow> reduce_calls ts t')"
    by (simp add: frame_loaded [OF r l])
next
  show "dictcombine (read_sql (self s)) [''params'' \<mapsto> params] ''columns''
            = read_sql (self s) ''columns''"
    by (simp add: dictcombine_def map_add_def)
qed

lemma ex_take_ab:
  "take_columns (ex_table n) [''a'', ''b''] =
     Inr \<lparr> columns = [''a'', ''b''], dtypes = [Int64, Object],
           rows = [(VInt 0, [VInt (int n), VStr ''x'']), (VInt 1, [VInt (int n), VStr ''y''])] \<rparr>"
  by (simp add: take_columns_def first_occurrences_def positions_def ex_table_def)

theorem C9_mask_skipped_iff_none_witness:
  "fst (frame ex_env [] (ex_state Map.empty)) = Inr (ex_table 0)
   \<and> fst (frame ex_env [] (ex_state [''columns'' \<mapsto> VNone])) = Inr (ex_table 0)
   \<and> fst (frame ex_env [] (ex_state [''columns'' \<mapsto> VList [VStr ''a'', VStr ''b'']])) =
       Inr \<lparr> columns = [''a'', ''b''], dtypes = [Int64, Object],
             rows = [(VInt 0, [VInt 0, VStr ''x'']), (VInt 1, [VInt 0, VStr ''y''])] \<rparr>"
  using C9_mask_skipped_iff_none [where env = ex_env and s = "ex_state Map.empty" and ts = "[]",
      OF ex_resolver ex_loader]
    C9_mask_skipped_iff_none [where env = ex_env and s = "ex_state [''columns'' \<mapsto> VNone]"
      and ts = "[]", OF ex_resolver ex_loader]
    C9_mask_skipped_iff_none [where env = ex_env
      and s = "ex_state [''columns'' \<mapsto> VList [VStr ''a'', VStr ''b'']]"
      and ts = "[]", OF ex_resolver ex_loader]
  by (simp add: ex_state_def ex_adapter_def init_def getitem_def ex_take_ab)

text \<open>
  Claim C6. \<open>frame\<close> returns the exception and no table, with the collaborators
  called once each up to the point of failure and not again, when
  \<^item> the dialect helper raises (the loader is then never called);
  \<^item> the loader raises;
  \<^item> the column mask raises;
  \<^item> a transformation raises on the result of the ones before it (the ones after it
    are not applied).
  The exception returned is the one that was raised.
\<close>

theorem C6_frame_propagates_errors:
  "(statement_and_params env (engine (self s)) (query (self s)) (world s) = (Inl e, w1)
      \<longrightarrow> frame env ts s =
           (Inl e, s\<lparr> world := w1,
                      calls := calls s @ [Resolve (engine (self s)) (query (self s))] \<rparr>))
 \<and> (statement_and_params env (engine (self s)) (query (self s)) (world s)
        = (Inr (sql, params), w1)
    \<and> pandas_read_sql env (sql_str env sql) (engine (self s))
        (dictcombine (read_sql (self s)) [''params'' \<mapsto> params]) w1 = (Inl e, w2)
      \<longrightarrow> frame env ts s =
           (Inl e, s\<lparr> world := w2, calls := calls s @
              [Resolve (engine (self s)) (query (self s)),
               ReadSql (sql_str env sql) (engine (self s))
                 (dictcombine (read_sql (self s)) [''params'' \<mapsto> params])] \<rparr>))
 \<and> (statement_and_params env (engine (self s)) (query (self s)) (world s)
        = (Inr (sql, params), w1)
    \<and> pandas_read_sql env (sql_str env sql) (engine (self s))
        (dictcombine (read_sql (self s)) [''params'' \<mapsto> params]) w1 = (Inr t, w2)
    \<and> mask_columns env (self s) t = Inl e
      \<longrightarrow> frame env ts s =
           (Inl e, s\<lparr> world := w2, calls := calls s @
              [Resolve (engine (self s)) (query (self s)),
               ReadSql (sql_str env sql) (engine (self s))
                 (dictcombine (read_sql (self s)) [''params'' \<mapsto> params])] \<rparr>))
 \<and> (statement_and_params env (engine (self s)) (query (self s)) (world s)
        = (Inr (sql, params), w1)
    \<and> pandas_read_sql env (sql_str env sql) (engine (self s))
        (dictcombine (read_sql (self s)) [''params'' \<mapsto> params]) w1 = (Inr t, w2)
    \<and> mask_columns env (self s) t = Inr t0
    \<and> reduce_calls before t0 = Inr x \<and> f x = Inl e
      \<longrightarrow> frame env (before @ f # after) s =
           (Inl e, s\<lparr> world := w2, calls := calls s @
              [Resolve (engine (self s)) (query (self s)),
               ReadSql (sql_str env sql) (engine (self s))
                 (dictcombine (read_sql (self s)) [''params'' \<mapsto> params])] \<rparr>))"
  by (simp add: frame_resolver_error frame_loader_error frame_loaded reduce_calls_append)

lemma ex_take_az:
  "take_columns (ex_table n) [''a'', ''z''] = Inl (KeyError (VList [VStr ''z'']))"
  by (simp add: take_columns_def first_occurrences_def ex_table_def)

theorem C6_frame_propagates_errors_witness:
  "frame ex_env_no_dialect [] (ex_state Map.empty) =
     (Inl (Raised ''unsupported dialect''),
      (ex_state Map.empty)\<lparr> world := 0,
         calls := [Resolve () ''SELECT a, b, c FROM t WHERE a > :p''] \<rparr>)
   \<and> fst (frame ex_env_down [] (ex_state Map.empty)) = Inl (Raised ''connection refused'')
   \<and> length (calls (snd (frame ex_env_down [] (ex_state Map.empty)))) = 2
   \<and> fst (frame ex_env [] (ex_state [''columns'' \<mapsto> VList [VStr ''a'', VStr ''z'']])) =
       Inl (KeyError (VList [VStr ''z'']))
   \<and> fst (frame ex_env [ex_drop_last_row, ex_fail, ex_rename_b] (ex_state Map.empty)) =
       Inl (Raised ''transformation failed'')"
proof -
  let ?q = "''SELECT a, b, c FROM t WHERE a > :p''"
  let ?p = "VDict [(''p'', VInt 2)]"
  have a: "statement_and_params ex_env_no_dialect (engine (self (ex_state Map.empty)))
             (query (self (ex_state Map.empty))) (world (ex_state Map.empty))
           = (Inl (Raised ''unsupported dialect''), 0)"
    by (simp add: ex_env_no_dialect_def ex_state_def)
  have b1: "statement_and_params ex_env_down (engine (self (ex_state Map.empty)))
             (query (self (ex_state Map.empty))) (world (ex_state Map.empty))
           = (Inr (?q, ?p), 0)"
    by (simp add: ex_env_down_def ex_env_def ex_state_def ex_adapter_def init_def)
  have b2: "pandas_read_sql ex_env_down (sql_str ex_env_down ?q)
             (engine (self (ex_state Map.empty)))
             (dictcombine (read_sql (self (ex_state Map.empty))) [''params'' \<mapsto> ?p]) 0
           = (Inl (Raised ''connection refused''), 0)"
    by (simp add: ex_env_down_def)
  let ?s = "ex_state [''columns'' \<mapsto> VList [VStr ''a'', VStr ''z'']]"
  have c: "mask_columns ex_env (self ?s) (ex_table 0) = Inl (KeyError (VList [VStr ''z'']))"
    by (simp add: mask_columns_def dict_get_def dict_getitem_def getitem_def ex_take_az
        ex_state_def ex_adapter_def init_def)
  have d1: "mask_columns ex_env (self (ex_state Map.empty)) (ex_table 0) = Inr (ex_table 0)"
    by (simp add: ex_state_def ex_mask_none)
  have d2: "reduce_calls [ex_drop_last_row] (ex_table 0) =
              Inr ((ex_table 0)\<lparr> rows := butlast (rows (ex_table 0)) \<rparr>)"
    by (simp add: ex_drop_last_row_def)
  have d3: "ex_fail ((ex_table 0)\<lparr> rows := butlast (rows (ex_table 0)) \<rparr>)
              = Inl (Raised ''transformation failed'')"
    by (simp add: ex_fail_def)
  from C6_frame_propagates_errors [where env = ex_env_no_dialect and s = "ex_state Map.empty"
      and ts = "[]" and e = "Raised ''unsupported dialect''" and ?w1.0 = 0] a
  have 1: "frame ex_env_no_dialect [] (ex_state Map.empty) =
     (Inl (Raised ''unsupported dialect''),
      (ex_state Map.empty)\<lparr> world := 0, calls := [Resolve () ?q] \<rparr>)"
    by (simp add: ex_state_def ex_adapter_def init_def)
  from C6_frame_propagates_errors [where env = ex_env_down and s = "ex_state Map.empty"
      and ts = "[]" and e = "Raised ''connection refused''" and ?w1.0 = 0 and ?w2.0 = 0
      and sql = ?q and params = ?p] b1 b2
  have 2: "frame ex_env_down [] (ex_state Map.empty) =
     (Inl (Raised ''connection refused''),
      (ex_state Map.empty)\<lparr> world := 0, calls := calls (ex_state Map.empty) @
        [Resolve (engine (self (ex_state Map.empty))) (query (self (ex_state Map.empty))),
         ReadSql (sql_str ex_env_down ?q) (engine (self (ex_state Map.empty)))
           (dictcombine (read_sql (self (ex_state Map.empty))) [''params'' \<mapsto> ?p])] \<rparr>)"
    by blast
  have r3: "statement_and_params ex_env (engine (self ?s)) (query (self ?s)) (world ?s)
             = (Inr (?q, ?p), 0)"
    by (rule ex_resolver)
  have l3: "pandas_read_sql ex_env (sql_str ex_env ?q) (engine (self ?s))
             (dictcombine (read_sql (self ?s)) [''params'' \<mapsto> ?p]) 0
           = (Inr (ex_table 0), Suc 0)"
    by (rule ex_loader)
  from C6_frame_propagates_errors [where env = ex_env and s = ?s
      and ts = "[]" and e = "KeyError (VList [VStr ''z''])" and ?w1.0 = 0 and ?w2.0 = "Suc 0"
      and sql = ?q and params = ?p and t = "ex_table 0"] r3 l3 c
  have 3: "fst (frame ex_env [] ?s) = Inl (KeyError (VList [VStr ''z'']))"
    by simp
  have r4: "statement_and_params ex_env (engine (self (ex_state Map.empty)))
             (query (self (ex_state Map.empty))) (world (ex_state Map.empty))
             = (Inr (?q, ?p), 0)"
    by (rule ex_resolver)
  have l4: "pandas_read_sql ex_env (sql_str ex_env ?q) (engine (self (ex_state Map.empty)))
             (dictcombine (read_sql (self (ex_state Map.empty))) [''params'' \<mapsto> ?p]) 0
           = (Inr (ex_table 0), Suc 0)"
    by (rule ex_loader)
  from C6_frame_propagates_errors [where env = ex_env and s = "ex_state Map.empty"
      and e = "Raised ''transformation failed''" and ?w1.0 = 0 and ?w2.0 = "Suc 0"
      and sql = ?q and params = ?p and t = "ex_table 0" and ?t0.0 = "ex_table 0"
      and before = "[ex_drop_last_row]" and f = ex_fail and after = "[ex_rename_b]"
      and x = "(ex_table 0)\<lparr> rows := butlast (rows (ex_table 0)) \<rparr>"]
    r4 l4 d1 d2 d3
  have 4: "fst (frame ex_env [ex_drop_last_row, ex_fail, ex_rename_b] (ex_state Map.empty))
            = Inl (Raised ''transformation failed'')"
    by simp
  from 1 2 3 4 show ?thesis by (simp add: ex_state_def)
qed

section \<open>The options passed to the loader\<close>

text \<open>
  Claim C1. When the dialect helper returns a statement and parameters, \<open>frame\<close>
  applies the loader, in the world the helper left, to the statement, the engine and
  the options \<open>dictcombine (read_sql self) {'params': params}\<close>, and what \<open>frame\<close>
  returns and the world it leaves are what that one application gives. In these options
  the \<open>params\<close> entry is the helper's parameters, whatever the stored options had
  under that key, and every other key has the stored options' entry (or none).
\<close>

theorem C1_frame_options_merge:
  assumes "statement_and_params env (engine (self s)) (query (self s)) (world s)
             = (Inr (sql, params), w1)"
  shows "\<exists>opts.
           opts = dictcombine (read_sql (self s)) [''params'' \<mapsto> params]
         \<and> opts ''params'' = Some params
         \<and> (\<forall>k. k \<noteq> ''params'' \<longrightarrow> opts k = read_sql (self s) k)
         \<and> frame env ts s =
             (case pandas_read_sql env (sql_str env sql) (engine (self s)) opts w1 of
                (res, w2) \<Rightarrow>
                  ((case res of
                      Inl e \<Rightarrow> Inl e
                    | Inr t \<Rightarrow> (case mask_columns env (self s) t of
                                 Inl e \<Rightarrow> Inl e | Inr t' \<Rightarrow> reduce_calls ts t')),
                   s\<lparr> world := w2, calls := calls s @
                     [Resolve (engine (self s)) (query (self s)),
                      ReadSql (sql_str env sql) (engine (self s)) opts] \<rparr>))"
proof -
  let ?opts = "dictcombine (read_sql (self s)) [''params'' \<mapsto> params]"
  obtain res w2 where
    l: "pandas_read_sql env (sql_str env sql) (engine (self s)) ?opts w1 = (res, w2)"
    by (cases "pandas_read_sql env (sql_str env sql) (engine (self s)) ?opts w1")
  have "frame env ts s =
          (case pandas_read_sql env (sql_str env sql) (engine (self s)) ?opts w1 of
             (res, w2) \<Rightarrow>
               ((case res of
                   Inl e \<Rightarrow> Inl e
                 | Inr t \<Rightarrow> (case mask_columns env (self s) t of
                              Inl e \<Rightarrow> Inl e | Inr t' \<Rightarrow> reduce_calls ts t')),
                s\<lparr> world := w2, calls := calls s @
                  [Resolve (engine (self s)) (query (self s)),
                   ReadSql (sql_str env sql) (engine (self s)) ?opts] \<rparr>))"
    by (simp add: l frame_resolved [OF assms l])
  moreover have "?opts ''params'' = Some params"
    by (simp add: dictcombine_def)
  moreover have "\<forall>k. k \<noteq> ''params'' \<longrightarrow> ?opts k = read_sql (self s) k"
    by (simp add: dictcombine_def map_add_def)
  ultimately show ?thesis by blast
qed

lemma ex_echo_resolver:
  "statement_and_params ex_env_echo (engine (self (ex_state opts))) (query (self (ex_state opts)))
     (world (ex_state opts))
   = (Inr (''SELECT a, b, c FROM t WHERE a > :p'', VDict [(''p'', VInt 2)]), 0)"
  by (simp add: ex_env_echo_def ex_env_def ex_state_def ex_adapter_def init_def)

text \<open>
  The spec's example: stored options \<^verbatim>\<open>{'params': {'p': 1}, 'index_col': 'id'}\<close>,
  resolved parameters \<^verbatim>\<open>{'p': 2}\<close>; the loader shows what it received.
\<close>

theorem C1_frame_options_merge_witness:
  "fst (frame ex_env_echo []
     (ex_state [''params'' \<mapsto> VDict [(''p'', VInt 1)], ''index_col'' \<mapsto> VStr ''id''])) =
     Inr \<lparr> columns = [''params'', ''index_col''],
           dtypes = [Object, Object],
           rows = [(VInt 0, [VDict [(''p'', VInt 2)], VStr ''id''])] \<rparr>
   \<and> world (snd (frame ex_env_echo []
     (ex_state [''params'' \<mapsto> VDict [(''p'', VInt 1)], ''index_col'' \<mapsto> VStr ''id'']))) = 1"
  using C1_frame_options_merge
    [where env = ex_env_echo and ts = "[]"
       and s = "ex_state [''params'' \<mapsto> VDict [(''p'', VInt 1)], ''index_col'' \<mapsto> VStr ''id'']",
     OF ex_echo_resolver]
  by (auto simp add: ex_env_echo_def ex_state_def ex_adapter_def init_def dictcombine_def
      dict_get_def mask_columns_def)

section \<open>The column mask projects\<close>

lemma set_positions: "set (positions cs c) = {i. i < length cs \<and> cs ! i = c}"
  unfolding positions_def by (simp add: set_eq_iff)

lemma positions_snoc:
  "positions (cs @ [x]) c = positions cs c @ (if x = c then [length cs] else [])"
proof -
  have "filter (\<lambda>i. (cs @ [x]) ! i = c) [0..<length cs] = filter (\<lambda>i. cs ! i = c) [0..<length cs]"
    by (rule filter_cong) (simp_all add: nth_append)
  then show ?thesis
    unfolding positions_def by simp
qed

lemma length_positions: "length (positions cs c) = count_list cs c"
  by (induction cs rule: rev_induct) (simp_all add: positions_snoc, simp add: positions_def)

lemma positions_once:
  assumes "count_list cs c = 1"
  shows "\<exists>i. positions cs c = [i] \<and> i < length cs \<and> cs ! i = c
             \<and> (\<forall>j<length cs. cs ! j = c \<longrightarrow> j = i)"
proof -
  from assms have "length (positions cs c) = Suc 0"
    by (simp add: length_positions)
  then obtain i where p: "positions cs c = [i]"
    by (auto simp add: length_Suc_conv)
  have s: "{j. j < length cs \<and> cs ! j = c} = {i}"
    using set_positions [of cs c] p by simp
  then have "i < length cs \<and> cs ! i = c" by blast
  moreover from s have "\<forall>j<length cs. cs ! j = c \<longrightarrow> j = i" by blast
  ultimately show ?thesis using p by blast
qed

lemma cell_at_only_position:
  assumes "length r = length cs" and "i < length cs" and "cs ! i = c"
    and "\<forall>j<length cs. cs ! j = c \<longrightarrow> j = i"
  shows "cell cs r c = Some (r ! i)"
  using assms
proof (induction cs arbitrary: r i)
  case Nil
  then show ?case by simp
next
  case (Cons x cs)
  from Cons.prems(1) obtain y r' where r: "r = y # r'" by (cases r) auto
  show ?case
  proof (cases i)
    case 0
    with Cons.prems r show ?thesis by (simp add: cell_def)
  next
    case (Suc i')
    have "x \<noteq> c"
    proof
      assume "x = c"
      then have "0 < length (x # cs) \<and> (x # cs) ! 0 = c" by simp
      with Cons.prems(4) have "0 = i" by blast
      with Suc show False by simp
    qed
    moreover have "cell cs r' c = Some (r' ! i')"
    proof (rule Cons.IH)
      show "length r' = length cs" using Cons.prems(1) r by simp
      show "i' < length cs" using Cons.prems(2) Suc by simp
      show "cs ! i' = c" using Cons.prems(3) Suc by simp
      show "\<forall>j<length cs. cs ! j = c \<longrightarrow> j = i'"
      proof (intro allI impI)
        fix j assume "j < length cs" and "cs ! j = c"
        then have "Suc j < length (x # cs) \<and> (x # cs) ! Suc j = c" by simp
        with Cons.prems(4) have "Suc j = i" by blast
        with Suc show "j = i'" by simp
      qed
    qed
    ultimately show ?thesis using r Suc by (simp add: cell_def)
  qed
qed

lemma take_row:
  assumes "length r = length cs" and "\<forall>c\<in>set labels. count_list cs c = 1"
  shows "map (\<lambda>i. r ! i) (concat (map (positions cs) labels))
           = map (\<lambda>c. the (cell cs r c)) labels"
  using assms(2)
proof (induction labels)
  case Nil
  show ?case by simp
next
  case (Cons c labels)
  then have "count_list cs c = 1" by simp
  then obtain i where i: "positions cs c = [i]" "i < length cs" "cs ! i = c"
    "\<forall>j<length cs. cs ! j = c \<longrightarrow> j = i"
    using positions_once [of cs c] by blast
  have "cell cs r c = Some (r ! i)"
    using assms(1) i(2,3,4) by (rule cell_at_only_position)
  with Cons i(1) show ?case by simp
qed

lemma take_labels:
  assumes "\<forall>c\<in>set labels. count_list cs c = 1"
  shows "map (\<lambda>i. cs ! i) (concat (map (positions cs) labels)) = labels"
  using assms
proof (induction labels)
  case Nil
  show ?case by simp
next
  case (Cons c labels)
  then have "count_list cs c = 1" by simp
  then obtain i where "positions cs c = [i]" "cs ! i = c"
    using positions_once [of cs c] by blast
  with Cons show ?case by simp
qed

lemma once_present: "\<forall>c\<in>set labels. count_list cs c = 1 \<Longrightarrow> set labels \<subseteq> set cs"
proof
  fix c
  assume "\<forall>c\<in>set labels. count_list cs c = 1" and "c \<in> set labels"
  then have "count_list cs c = 1" by blast
  then have "count_list cs c \<noteq> 0" by simp
  then show "c \<in> set cs" unfolding count_list_0_iff by simp
qed

lemma first_occurrences_Nil [simp]: "first_occurrences xs = [] \<longleftrightarrow> xs = []"
  by (simp add: first_occurrences_def)

lemma take_columns_once:
  assumes "rectangular t" and "\<forall>c\<in>set labels. count_list (columns t) c = 1"
  shows "\<exists>ds. take_columns t labels =
           Inr \<lparr> columns = labels, dtypes = ds,
                 rows = map (\<lambda>r. (fst r, map (\<lambda>c. the (cell (columns t) (snd r) c)) labels))
                          (rows t) \<rparr>"
proof -
  have len: "\<And>r. r \<in> set (rows t) \<Longrightarrow> length (snd r) = length (columns t)"
    using assms(1) by (simp add: rectangular_def list_all_iff)
  have m: "filter (\<lambda>c. c \<notin> set (columns t)) labels = []"
    using once_present [OF assms(2)] by (auto simp add: filter_empty_conv)
  have "map (\<lambda>r. (fst r, map (\<lambda>i. snd r ! i) (concat (map (positions (columns t)) labels))))
          (rows t)
        = map (\<lambda>r. (fst r, map (\<lambda>c. the (cell (columns t) (snd r) c)) labels)) (rows t)"
    using take_row [OF len assms(2)] by (intro map_cong refl) simp
  with m take_labels [OF assms(2)] show ?thesis
    by (simp add: take_columns_def Let_def)
qed

lemma take_columns_absent:
  assumes "\<not> set labels \<subseteq> set (columns t)"
  shows "\<exists>missing. missing \<noteq> [] \<and> set missing = set labels - set (columns t)
           \<and> take_columns t labels = Inl (KeyError (VList (map VStr missing)))"
proof -
  let ?m = "first_occurrences (filter (\<lambda>c. c \<notin> set (columns t)) labels)"
  have "filter (\<lambda>c. c \<notin> set (columns t)) labels \<noteq> []"
    using assms by (auto simp add: filter_empty_conv)
  then have "?m \<noteq> []" by simp
  moreover have "set ?m = set labels - set (columns t)"
    by (auto simp add: first_occurrences_def)
  ultimately show ?thesis
    by (intro exI [of _ ?m]) (simp add: take_columns_def Let_def)
qed

lemma labels_of_names: "labels_of (VList (map VStr labels)) = Some labels"
  by (simp add: list_all_iff comp_def)

lemma cell_once:
  assumes "rectangular t" and "r \<in> set (rows t)" and "count_list (columns t) c = 1"
  shows "\<exists>v. cell (columns t) (snd r) c = Some v"
proof -
  from assms(1,2) have len: "length (snd r) = length (columns t)"
    by (simp add: rectangular_def list_all_iff)
  from assms(3) obtain i where "i < length (columns t)" "columns t ! i = c"
    "\<forall>j<length (columns t). columns t ! j = c \<longrightarrow> j = i"
    using positions_once [of "columns t" c] by blast
  with len have "cell (columns t) (snd r) c = Some (snd r ! i)"
    by (rule cell_at_only_position)
  then show ?thesis by blast
qed

text \<open>
  Claim C2, as amended. The stored options have \<open>columns\<close> set to a list of column
  names and the loader returned the table \<open>t\<close>, rectangular as every DataFrame is,
  whether its labels repeat or not. When every requested name labels
  exactly one column of \<open>t\<close>, \<open>frame()\<close> returns a table whose columns are exactly
  the requested list, in that order, whose rows carry the index labels of the rows of
  \<open>t\<close> in the same order, and whose cell in row \<open>k\<close> and position \<open>j\<close> is the cell of
  row \<open>k\<close> of \<open>t\<close> under the \<open>j\<close>-th requested name; the transformations are applied
  to that projected table. When a requested name is no column of \<open>t\<close>, the exception
  of \<open>t[names]\<close> is the result of \<open>frame\<close>.
\<close>

theorem C2_frame_projects_columns:
  assumes r: "statement_and_params env (engine (self s)) (query (self s)) (world s)
             = (Inr (sql, params), w1)"
    and l: "pandas_read_sql env (sql_str env sql) (engine (self s))
           (dictcombine (read_sql (self s)) [''params'' \<mapsto> params]) w1 = (Inr t, w2)"
    and rect: "rectangular t"
    and cols: "read_sql (self s) ''columns'' = Some (VList (map VStr labels))"
  shows "((\<forall>c\<in>set labels. count_list (columns t) c = 1) \<longrightarrow>
           (\<exists>t'. fst (frame env [] s) = Inr t'
               \<and> fst (frame env ts s) = reduce_calls ts t'
               \<and> columns t' = labels
               \<and> map fst (rows t') = map fst (rows t)
               \<and> (\<forall>k<length (rows t). \<forall>j<length labels.
                     cell (columns t) (snd (rows t ! k)) (labels ! j)
                       = Some (snd (rows t' ! k) ! j))
               \<and> list_all (\<lambda>r. length (snd r) = length labels) (rows t')))
       \<and> (\<not> set labels \<subseteq> set (columns t) \<longrightarrow>
           (\<exists>e. take_columns t labels = Inl e \<and> fst (frame env ts s) = Inl e))"
proof -
  have mask: "mask_columns env (self s) t = take_columns t labels"
    using cols by (simp add: mask_columns_key getitem_def labels_of_names del: labels_of.simps)
  have fr: "fst (frame env us s) =
              (case take_columns t labels of Inl e \<Rightarrow> Inl e | Inr t' \<Rightarrow> reduce_calls us t')"
    for us
    by (simp add: frame_loaded [OF r l] mask)
  show ?thesis
  proof (intro conjI impI)
    assume once: "\<forall>c\<in>set labels. count_list (columns t) c = 1"
    from take_columns_once [OF rect once] obtain ds where
      tk: "take_columns t labels =
             Inr \<lparr> columns = labels, dtypes = ds,
                   rows = map (\<lambda>r. (fst r, map (\<lambda>c. the (cell (columns t) (snd r) c)) labels))
                            (rows t) \<rparr>"
      by blast
    let ?t' = "\<lparr> columns = labels, dtypes = ds,
                 rows = map (\<lambda>r. (fst r, map (\<lambda>c. the (cell (columns t) (snd r) c)) labels))
                          (rows t) \<rparr>"
    have cells: "\<forall>k<length (rows t). \<forall>j<length labels.
                   cell (columns t) (snd (rows t ! k)) (labels ! j)
                     = Some (snd (rows ?t' ! k) ! j)"
    proof (intro allI impI)
      fix k j
      assume k: "k < length (rows t)" and j: "j < length labels"
      from j once have "count_list (columns t) (labels ! j) = 1" by simp
      with cell_once [OF rect nth_mem [OF k]]
      obtain v where "cell (columns t) (snd (rows t ! k)) (labels ! j) = Some v" by blast
      with k j show "cell (columns t) (snd (rows t ! k)) (labels ! j)
                       = Some (snd (rows ?t' ! k) ! j)"
        by simp
    qed
    have "fst (frame env [] s) = Inr ?t'" by (simp add: fr tk)
    moreover have "fst (frame env ts s) = reduce_calls ts ?t'" by (simp add: fr tk)
    moreover have "map fst (rows ?t') = map fst (rows t)" by (simp add: comp_def)
    moreover have "list_all (\<lambda>r. length (snd r) = length labels) (rows ?t')"
      by (simp add: list_all_iff)
    ultimately show "\<exists>t'. fst (frame env [] s) = Inr t'
               \<and> fst (frame env ts s) = reduce_calls ts t'
               \<and> columns t' = labels
               \<and> map fst (rows t') = map fst (rows t)
               \<and> (\<forall>k<length (rows t). \<forall>j<length labels.
                     cell (columns t) (snd (rows t ! k)) (labels ! j)
                       = Some (snd (rows t' ! k) ! j))
               \<and> list_all (\<lambda>r. length (snd r) = length labels) (rows t')"
      using cells by (intro exI [of _ ?t']) simp
  next
    assume "\<not> set labels \<subseteq> set (columns t)"
    from take_columns_absent [OF this] obtain e where "take_columns t labels = Inl e"
      by blast
    then show "\<exists>e. take_columns t labels = Inl e \<and> fst (frame env ts s) = Inl e"
      by (simp add: fr)
  qed
qed


text \<open>
  The claim as first stated, for every loaded table, fails where a requested name
  labels two columns: from a table with the columns \<^verbatim>\<open>a, b, a\<close> and
  \<^verbatim>\<open>columns=['a']\<close>, \<open>frame()\<close> returns both columns \<^verbatim>\<open>a\<close>.
\<close>

theorem C2_frame_projects_columns_counterexample:
  "fst (frame ex_env_join [] (ex_state [''columns'' \<mapsto> VList [VStr ''a'']])) =
     Inr \<lparr> columns = [''a'', ''a''], dtypes = [Int64, Int64],
           rows = [(VInt 0, [VInt 1, VInt 7])] \<rparr>
   \<and> [''a'', ''a''] \<noteq> [''a'']"
proof -
  let ?s = "ex_state [''columns'' \<mapsto> VList [VStr ''a'']]"
  let ?t = "\<lparr> columns = [''a'', ''b'', ''a''], dtypes = [Int64, Object, Int64],
              rows = [(VInt 0, [VInt 1, VStr ''x'', VInt 7])] \<rparr>"
  have r: "statement_and_params ex_env_join (engine (self ?s)) (query (self ?s)) (world ?s)
             = (Inr (''SELECT a, b, c FROM t WHERE a > :p'', VDict [(''p'', VInt 2)]), 0)"
    by (simp add: ex_env_join_def ex_env_def ex_state_def ex_adapter_def init_def)
  have l: "pandas_read_sql ex_env_join
             (sql_str ex_env_join ''SELECT a, b, c FROM t WHERE a > :p'') (engine (self ?s))
             (dictcombine (read_sql (self ?s)) [''params'' \<mapsto> VDict [(''p'', VInt 2)]]) 0
           = (Inr ?t, Suc 0)"
    by (simp add: ex_env_join_def)
  have m: "mask_columns ex_env_join (self ?s) ?t =
             Inr \<lparr> columns = [''a'', ''a''], dtypes = [Int64, Int64],
                   rows = [(VInt 0, [VInt 1, VInt 7])] \<rparr>"
    by (simp add: mask_columns_def dict_get_def dict_getitem_def getitem_def take_columns_def
        first_occurrences_def positions_def ex_state_def ex_adapter_def init_def)
  show ?thesis
    by (simp add: frame_loaded [OF r l] m)
qed

lemma ex_table_rectangular: "rectangular (ex_table n)"
  by (simp add: rectangular_def ex_table_def)

theorem C2_frame_projects_columns_witness:
  "rectangular (ex_table 0)
   \<and> fst (frame ex_env [] (ex_state [''columns'' \<mapsto> VList [VStr ''c'', VStr ''a'']])) =
       Inr \<lparr> columns = [''c'', ''a''], dtypes = [Int64, Int64],
             rows = [(VInt 0, [VInt 10, VInt 0]), (VInt 1, [VInt 20, VInt 0])] \<rparr>
   \<and> fst (frame ex_env [ex_drop_last_row]
         (ex_state [''columns'' \<mapsto> VList [VStr ''c'', VStr ''a'']])) =
       Inr \<lparr> columns = [''c'', ''a''], dtypes = [Int64, Int64],
             rows = [(VInt 0, [VInt 10, VInt 0])] \<rparr>
   \<and> fst (frame ex_env []
         (ex_state [''columns'' \<mapsto> VList [VStr ''z'', VStr ''a'', VStr ''z'']])) =
       Inl (KeyError (VList [VStr ''z'']))"
proof -
  let ?ca = "[''columns'' \<mapsto> VList (map VStr [''c'', ''a''])]"
  let ?zaz = "[''columns'' \<mapsto> VList (map VStr [''z'', ''a'', ''z''])]"
  have cca: "read_sql (self (ex_state ?ca)) ''columns'' = Some (VList (map VStr [''c'', ''a'']))"
    by (simp add: ex_state_def ex_adapter_def init_def)
  have czaz: "read_sql (self (ex_state ?zaz)) ''columns''
                = Some (VList (map VStr [''z'', ''a'', ''z'']))"
    by (simp add: ex_state_def ex_adapter_def init_def)
  have once: "\<forall>c\<in>set [''c'', ''a'']. count_list (columns (ex_table 0)) c = 1"
    by (simp add: ex_table_def)
  have absent: "\<not> set [''z'', ''a'', ''z''] \<subseteq> set (columns (ex_table 0))"
    by (simp add: ex_table_def)
  from C2_frame_projects_columns [where env = ex_env and s = "ex_state ?ca"
      and ts = "[ex_drop_last_row]", OF ex_resolver ex_loader ex_table_rectangular cca] once
  obtain t' where t': "fst (frame ex_env [] (ex_state ?ca)) = Inr t'"
    "fst (frame ex_env [ex_drop_last_row] (ex_state ?ca)) = reduce_calls [ex_drop_last_row] t'"
    by blast
  have 0: "fst (frame ex_env [] (ex_state ?ca)) =
       Inr \<lparr> columns = [''c'', ''a''], dtypes = [Int64, Int64],
             rows = [(VInt 0, [VInt 10, VInt 0]), (VInt 1, [VInt 20, VInt 0])] \<rparr>"
    by (simp add: ex_frame mask_columns_def dict_get_def dict_getitem_def getitem_def
        ex_adapter_def init_def take_columns_def first_occurrences_def positions_def
        ex_table_def)
  with t' have 1: "fst (frame ex_env [ex_drop_last_row] (ex_state ?ca)) =
       Inr \<lparr> columns = [''c'', ''a''], dtypes = [Int64, Int64],
             rows = [(VInt 0, [VInt 10, VInt 0])] \<rparr>"
    by (simp add: ex_drop_last_row_def)
  from C2_frame_projects_columns [where env = ex_env and s = "ex_state ?zaz" and ts = "[]",
      OF ex_resolver ex_loader ex_table_rectangular czaz] absent
  obtain e where e: "take_columns (ex_table 0) [''z'', ''a'', ''z''] = Inl e"
    "fst (frame ex_env [] (ex_state ?zaz)) = Inl e"
    by blast
  have "take_columns (ex_table 0) [''z'', ''a'', ''z''] = Inl (KeyError (VList [VStr ''z'']))"
    by (simp add: take_columns_def first_occurrences_def ex_table_def)
  with e have 2: "fst (frame ex_env [] (ex_state ?zaz)) = Inl (KeyError (VList [VStr ''z'']))"
    by simp
  from 0 1 2 ex_table_rectangular [of 0] show ?thesis by simp
qed

section \<open>The generator of \<open>parse\<close>\<close>

lemma gen_next_ok:
  "ormcls a (to_dict (snd p)) = Inr obj \<Longrightarrow>
   gen_next \<lparr> g_self = a, pending = p # rest \<rparr> = (Yield obj, \<lparr> g_self = a, pending = rest \<rparr>)"
  by (simp add: gen_next_def)

lemma gen_next_fail:
  "ormcls a (to_dict (snd p)) = Inl e \<Longrightarrow>
   gen_next \<lparr> g_self = a, pending = p # rest \<rparr> = (Raise e, \<lparr> g_self = a, pending = [] \<rparr>)"
  by (simp add: gen_next_def)

lemma gen_next_done:
  "gen_next \<lparr> g_self = a, pending = [] \<rparr> = (StopIteration, \<lparr> g_self = a, pending = [] \<rparr>)"
  by (simp add: gen_next_def)

lemma nexts_done:
  "nexts m \<lparr> g_self = a, pending = [] \<rparr>
     = (replicate m StopIteration, \<lparr> g_self = a, pending = [] \<rparr>)"
  by (induction m) (simp_all add: gen_next_done)

lemma nexts_add:
  "nexts (n + m) g =
     (case nexts n g of (rs, g') \<Rightarrow> (case nexts m g' of (rs', g'') \<Rightarrow> (rs @ rs', g'')))"
  by (induction n arbitrary: g) (auto split: prod.splits)

lemma nexts_ok:
  assumes "length objs = length ps"
    and "\<forall>k<length ps. ormcls a (to_dict (snd (ps ! k))) = Inr (objs ! k)"
  shows "nexts (length ps) \<lparr> g_self = a, pending = ps @ rest \<rparr>
           = (map Yield objs, \<lparr> g_self = a, pending = rest \<rparr>)"
  using assms
proof (induction ps arbitrary: objs)
  case Nil
  then show ?case by simp
next
  case (Cons p ps)
  from Cons.prems(1) obtain obj objs' where objs: "objs = obj # objs'"
    by (cases objs) auto
  from Cons.prems objs have p: "ormcls a (to_dict (snd p)) = Inr obj"
    by auto
  from Cons.prems objs
  have "\<forall>k<length ps. ormcls a (to_dict (snd (ps ! k))) = Inr (objs' ! k)"
    by auto
  with Cons.IH [of objs'] Cons.prems objs
  have "nexts (length ps) \<lparr> g_self = a, pending = ps @ rest \<rparr>
           = (map Yield objs', \<lparr> g_self = a, pending = rest \<rparr>)"
    by simp
  with p objs show ?case by (simp add: gen_next_ok)
qed






lemma ex_ormcls_row:
  "ex_ormcls (to_dict [(''id'', VInt i), (''name'', VStr n)]) = Inr (i, n)"
  "ex_ormcls (to_dict [(''id'', VInt i), (''name'', VNone)]) = Inl (Raised ''TypeError'')"
  by (simp_all add: ex_ormcls_def to_dict_def)



text \<open>
  Claim C7. When the mapped class accepts rows \<open>0\<close> to \<open>i - 1\<close> and raises \<open>e\<close> on row
  \<open>i\<close>, the first \<open>i\<close> calls of \<open>next\<close> yield the objects of those rows, before row
  \<open>i\<close> is looked at; call number \<open>i + 1\<close> raises \<open>e\<close>; every later call raises
  \<open>StopIteration\<close>, so that no row after \<open>i\<close> gives an object.
\<close>

theorem C7_parse_stops_at_failure:
  assumes i: "i < length (rows t)"
    and len: "length objs = i"
    and ok: "\<forall>k<i. ormcls a (to_dict (snd (iterrows t ! k))) = Inr (objs ! k)"
    and bad: "ormcls a (to_dict (snd (iterrows t ! i))) = Inl e"
  shows "fst (nexts i (parse a t)) = map Yield objs
       \<and> fst (nexts (Suc i) (parse a t)) = map Yield objs @ [Raise e]
       \<and> fst (nexts (Suc i + m) (parse a t))
           = map Yield objs @ Raise e # replicate m StopIteration"
proof -
  let ?ps = "take i (iterrows t)"
  let ?rest = "iterrows t ! i # drop (Suc i) (iterrows t)"
  from i have i': "i < length (iterrows t)"
    by (simp add: iterrows_def)
  then have split: "iterrows t = ?ps @ ?rest"
    by (rule id_take_nth_drop)
  from i' have lp: "length ?ps = i" by simp
  have "nexts (length ?ps) \<lparr> g_self = a, pending = ?ps @ ?rest \<rparr>
          = (map Yield objs, \<lparr> g_self = a, pending = ?rest \<rparr>)"
    using len ok lp by (intro nexts_ok) simp_all
  then have n: "nexts i (parse a t) = (map Yield objs, \<lparr> g_self = a, pending = ?rest \<rparr>)"
    using split lp by (simp add: parse_def)
  have f: "gen_next \<lparr> g_self = a, pending = ?rest \<rparr>
             = (Raise e, \<lparr> g_self = a, pending = [] \<rparr>)"
    using bad by (rule gen_next_fail)
  have "nexts (i + Suc m) (parse a t)
          = (map Yield objs @ Raise e # replicate m StopIteration, \<lparr> g_self = a, pending = [] \<rparr>)"
    by (subst nexts_add) (simp add: n f nexts_done)
  moreover have "nexts (i + Suc 0) (parse a t)
          = (map Yield objs @ [Raise e], \<lparr> g_self = a, pending = [] \<rparr>)"
    by (subst nexts_add) (simp add: n f)
  ultimately show ?thesis using n by (simp del: nexts.simps)
qed

theorem C7_parse_stops_at_failure_witness:
  "fst (nexts 4 (parse (ex_adapter Map.empty) ex_malformed))
     = [Yield (1, ''x''), Raise (Raised ''TypeError''), StopIteration, StopIteration]
   \<and> fst (nexts 1 (parse (ex_adapter Map.empty) ex_malformed)) = [Yield (1, ''x'')]"
proof -
  let ?a = "ex_adapter Map.empty"
  have rows: "iterrows ex_malformed =
     [(VInt 0, [(''id'', VInt 1), (''name'', VStr ''x'')]),
      (VInt 1, [(''id'', VInt 2), (''name'', VNone)]),
      (VInt 2, [(''id'', VInt 3), (''name'', VStr ''z'')])]"
    by (simp add: iterrows_def row_values_def common_dtype_def ex_malformed_def)
  have i: "1 < length (rows ex_malformed)"
    by (simp add: ex_malformed_def)
  have len: "length [(1::int, ''x'')] = 1"
    by simp
  have ok: "\<forall>k<1. ormcls ?a (to_dict (snd (iterrows ex_malformed ! k))) = Inr ([(1, ''x'')] ! k)"
    by (simp add: rows ex_adapter_def init_def ex_ormcls_row)
  have bad: "ormcls ?a (to_dict (snd (iterrows ex_malformed ! 1))) = Inl (Raised ''TypeError'')"
    by (simp add: rows ex_adapter_def init_def ex_ormcls_row)
  from C7_parse_stops_at_failure [OF i len ok bad, of 2] show ?thesis
    by (simp add: eval_nat_numeral del: nexts.simps)
qed


















end
